theory Spec2Isabelle
  imports Main "HOL-Library.Sublist"
begin

section \<open>Static file serving of yubiauth (\<open>yubiauth/util/static.py\<close>)\<close>

text \<open>
  The module has three classes: \<open>FileApp\<close> answers a request with the contents of one file,
  \<open>FileIter\<close> streams an open file in blocks, and \<open>DirectoryApp\<close> maps the request path to a
  file below a root directory. Strings and file contents are Python byte strings, modelled
  as \<open>char list\<close>; Python integers are \<open>int\<close>.
\<close>

type_synonym bytes = string

subsection \<open>File objects\<close>

text \<open>
  The module fixes no Python version, and the file object that \<open>open(name, 'rb')\<close> returns
  differs between them: the built-in \<open>file\<close> of Python 2 and the \<open>io.BufferedReader\<close> of
  Python 3. What else the run-time system decides is how far behind the end of a file the
  operating system lets a seek go, and how large a buffer a read may allocate.
\<close>

datatype file_type = PyFile | BufferedReader

record runtime =
  ftype :: file_type
  max_offset :: nat
  max_read :: nat

text \<open>
  A Python file object opened on a regular file for binary reading: the bytes of the file,
  the read position, the closed flag, and the run-time system it lives in. The position may
  lie behind the end of the file (after a seek), where every read is empty.
\<close>

record pyfile =
  content :: bytes
  pos :: nat
  closed :: bool
  rt :: runtime

datatype py_error = IOError | ValueError | OverflowError | MemoryError | AssertionError

text \<open>
  \<open>file.seek(offset)\<close>. An offset inside the file or at its end is accepted. An offset
  behind the end is accepted when it fits the offset type (is below \<open>2^63\<close>) and the operating
  system takes it. A closed file raises ValueError; a negative offset and an offset the
  operating system refuses raise IOError (EINVAL); an offset that does not fit the offset
  type (below \<open>-2^63\<close>, or \<open>2^63\<close> and above) raises OverflowError on a \<open>file\<close> and
  ValueError on a \<open>BufferedReader\<close>.
\<close>

definition seek_accepts :: "pyfile \<Rightarrow> int \<Rightarrow> bool" where
  "seek_accepts f offset =
     (0 \<le> offset \<and>
      (offset \<le> int (length (content f))
       \<or> (offset < 2 ^ 63 \<and> offset \<le> int (max_offset (rt f)))))"

definition seek_error :: "pyfile \<Rightarrow> int \<Rightarrow> py_error" where
  "seek_error f offset =
     (if offset < - (2 ^ 63) \<or> 2 ^ 63 \<le> offset
      then (case ftype (rt f) of PyFile \<Rightarrow> OverflowError | BufferedReader \<Rightarrow> ValueError)
      else IOError)"

definition file_seek :: "pyfile \<Rightarrow> int \<Rightarrow> py_error + pyfile" where
  "file_seek f offset =
     (if closed f then Inl ValueError
      else if \<not> seek_accepts f offset then Inl (seek_error f offset)
      else Inr (f\<lparr>pos := nat offset\<rparr>))"

definition default_block_size :: int where
  "default_block_size = 65536"

text \<open>
  \<open>file.read(size)\<close>. The size \<open>-1\<close> reads up to the end of the file, and so does every
  negative size that fits the size type (is not below \<open>-2^63\<close>) on a \<open>file\<close>; a
  \<open>BufferedReader\<close> raises ValueError for a size below \<open>-1\<close>, and a size below \<open>-2^63\<close>
  raises OverflowError on both. Any other size reads at most that many bytes, into a
  buffer of that size: the model lets the run-time system allocate a block of the default
  size always, and a larger one up to its limit; beyond that the read raises (MemoryError;
  for a size at the limit of the size type the run-time system raises OverflowError, which
  the model does not tell apart). A closed file raises ValueError. The position moves
  behind the bytes read.
\<close>

definition read_accepts :: "pyfile \<Rightarrow> int \<Rightarrow> bool" where
  "read_accepts f n =
     ((- 1 \<le> n \<or> (ftype (rt f) = PyFile \<and> - (2 ^ 63) \<le> n))
      \<and> (n \<le> default_block_size \<or> n \<le> int (max_read (rt f))))"

definition read_error :: "pyfile \<Rightarrow> int \<Rightarrow> py_error" where
  "read_error f n =
     (if n < - (2 ^ 63) then OverflowError
      else if n < 0 then ValueError
      else MemoryError)"

definition file_read :: "pyfile \<Rightarrow> int \<Rightarrow> py_error + (bytes \<times> pyfile)" where
  "file_read f n =
     (if closed f then Inl ValueError
      else if \<not> read_accepts f n then Inl (read_error f n)
      else let rest = drop (pos f) (content f);
               data = (if n < 0 then rest else take (nat n) rest)
           in Inr (data, f\<lparr>pos := pos f + length data\<rparr>))"

definition file_close :: "pyfile \<Rightarrow> pyfile" where
  "file_close f = f\<lparr>closed := True\<rparr>"

subsection \<open>\<open>FileIter\<close>\<close>

text \<open>The object holds the file object it was constructed with (\<open>self.file\<close>).\<close>

datatype FileIter = FileIter (self_file: pyfile)

text \<open>
  \<open>app_iter_range\<close> is a generator. Its model is the run of the generator by a consumer
  that pulls until the generator stops: the chunks yielded in order, the file object
  afterwards, and the exception that ended the run, if one did.
\<close>

record iteration =
  chunks :: "bytes list"
  handle :: pyfile
  raised :: "py_error option"

definition yield :: "bytes \<Rightarrow> iteration \<Rightarrow> iteration" where
  "yield data r = r\<lparr>chunks := data # chunks r\<rparr>"

definition truthy :: "int option \<Rightarrow> bool" where
  "truthy v = (case v of None \<Rightarrow> False | Some n \<Rightarrow> n \<noteq> 0)"

text \<open>The size passed to \<open>read\<close>: \<open>min(block_size, limit) if limit is not None else block_size\<close>.\<close>

definition read_size :: "int option \<Rightarrow> int \<Rightarrow> int" where
  "read_size limit block_size =
     (case limit of Some l \<Rightarrow> min block_size l | None \<Rightarrow> block_size)"

text \<open>The body of \<open>while True\<close> (lines 99 to 109), from the state at the head of the loop.\<close>

function read_loop :: "pyfile \<Rightarrow> int option \<Rightarrow> int \<Rightarrow> iteration" where
  "read_loop f limit block_size =
     (case file_read f (read_size limit block_size) of
        Inl e \<Rightarrow> \<lparr>chunks = [], handle = f, raised = Some e\<rparr>
      | Inr (data, f') \<Rightarrow>
          if data = [] then \<lparr>chunks = [], handle = f', raised = None\<rparr>
          else (case limit of
                  None \<Rightarrow> yield data (read_loop f' None block_size)
                | Some l \<Rightarrow>
                    if l - int (length data) \<le> 0
                    then \<lparr>chunks = [data], handle = f', raised = None\<rparr>
                    else yield data (read_loop f' (Some (l - int (length data))) block_size)))"
  by pat_completeness auto
termination
proof (relation "measure (\<lambda>(f, limit, block_size). length (content f) - pos f)")
  show "wf (measure (\<lambda>(f, limit, block_size). length (content f) - pos f))"
    by simp
next
  fix f :: pyfile and limit :: "int option" and block_size :: int
    and x :: "bytes \<times> pyfile" and data :: bytes and f' :: pyfile
  assume "file_read f (read_size limit block_size) = Inr x" "(data, f') = x" "data \<noteq> []"
  then show "((f', None, block_size), (f, limit, block_size))
      \<in> measure (\<lambda>(f, limit, block_size). length (content f) - pos f)"
    by (auto simp: file_read_def Let_def split: if_splits)
next
  fix f :: pyfile and limit :: "int option" and block_size :: int
    and x :: "bytes \<times> pyfile" and data :: bytes and f' :: pyfile and l :: int
  assume "file_read f (read_size limit block_size) = Inr x" "(data, f') = x" "data \<noteq> []"
  then show "((f', Some (l - int (length data)), block_size), (f, limit, block_size))
      \<in> measure (\<lambda>(f, limit, block_size). length (content f) - pos f)"
    by (auto simp: file_read_def Let_def split: if_splits)
qed

text \<open>The \<open>finally\<close> clause of the \<open>try\<close> statement around the loop.\<close>

definition finally_close :: "iteration \<Rightarrow> iteration" where
  "finally_close r = r\<lparr>handle := file_close (handle r)\<rparr>"

text \<open>
  \<open>FileIter.app_iter_range(seek, limit, block_size)\<close>. The seek of line 95 stands before the
  \<open>try\<close>: when it raises, the loop does not run and the file is not closed.
\<close>

definition app_iter_range :: "FileIter \<Rightarrow> int option \<Rightarrow> int option \<Rightarrow> int \<Rightarrow> iteration" where
  "app_iter_range self seek limit block_size =
     (if truthy seek then
        (case file_seek (self_file self) (the seek) of
           Inl e \<Rightarrow> \<lparr>chunks = [], handle = self_file self, raised = Some e\<rparr>
         | Inr f' \<Rightarrow>
             finally_close
               (read_loop f' (case limit of Some l \<Rightarrow> Some (l - the seek) | None \<Rightarrow> None)
                  block_size))
      else finally_close (read_loop (self_file self) limit block_size))"

text \<open>\<open>__iter__ = app_iter_range\<close>: iterating the object calls it with the defaults.\<close>

definition FileIter_iter :: "FileIter \<Rightarrow> iteration" where
  "FileIter_iter self = app_iter_range self None None default_block_size"

subsection \<open>What the module takes from the Python runtime\<close>

text \<open>
  The module calls \<open>os.getcwd\<close> (inside \<open>os.path.abspath\<close>), \<open>os.stat\<close> (directly, and
  inside \<open>os.path.isfile\<close> and \<open>os.path.isdir\<close>), \<open>open\<close>, \<open>mimetypes.guess_type\<close> and the
  \<open>%r\<close> conversion of a string. They are parameters of the model: an environment gives the
  answer of each, and the run-time system that the file objects it opens live in. An
  \<open>IOError\<close> or \<open>OSError\<close> carries its text \<open>str(e)\<close>. The time stamp \<open>st_mtime\<close> only passes
  through the module.
\<close>

datatype file_kind = S_IFREG | S_IFDIR | S_IFOTHER

record stat_result =
  st_kind :: file_kind
  st_size :: int
  st_mtime :: int

datatype os_error = OSError (errno: int) (str_of: string)

record env =
  getcwd :: string
  stat_of :: "string \<Rightarrow> os_error + stat_result"
  open_rb :: "string \<Rightarrow> os_error + bytes"
  guess_type :: "string \<Rightarrow> string option \<times> string option"
  repr_of :: "string \<Rightarrow> string"
  runtime_of :: runtime

text \<open>The calls that reach the file system, recorded in the order they are made.\<close>

datatype syscall = Stat string | Open string

text \<open>\<open>os.path.isfile\<close> and \<open>os.path.isdir\<close>: a stat that fails answers False.\<close>

definition isfile :: "env \<Rightarrow> string \<Rightarrow> bool" where
  "isfile e p = (case stat_of e p of Inl err \<Rightarrow> False | Inr st \<Rightarrow> st_kind st = S_IFREG)"

definition isdir :: "env \<Rightarrow> string \<Rightarrow> bool" where
  "isdir e p = (case stat_of e p of Inl err \<Rightarrow> False | Inr st \<Rightarrow> st_kind st = S_IFDIR)"

text \<open>\<open>open(filename, 'rb')\<close>: the file object starts at position 0.\<close>

definition open_file :: "env \<Rightarrow> string \<Rightarrow> os_error + pyfile" where
  "open_file e p =
     (case open_rb e p of
        Inl err \<Rightarrow> Inl err
      | Inr bs \<Rightarrow> Inr \<lparr>content = bs, pos = 0, closed = False, rt = runtime_of e\<rparr>)"

subsection \<open>Paths (\<open>posixpath\<close>, with \<open>os.path.sep = '/'\<close>)\<close>

text \<open>\<open>s.split('/')\<close> and \<open>'/'.join(comps)\<close>.\<close>

fun split_sep :: "string \<Rightarrow> string list" where
  "split_sep [] = [[]]"
| "split_sep (c # cs) =
     (if c = CHR ''/'' then [] # split_sep cs
      else (case split_sep cs of [] \<Rightarrow> [[c]] | w # ws \<Rightarrow> (c # w) # ws))"

fun join_sep :: "string list \<Rightarrow> string" where
  "join_sep [] = []"
| "join_sep [w] = w"
| "join_sep (w # ws) = w @ ''/'' @ join_sep ws"

text \<open>\<open>s.lstrip('/')\<close>.\<close>

definition lstrip_sep :: "string \<Rightarrow> string" where
  "lstrip_sep s = dropWhile (\<lambda>c. c = CHR ''/'') s"

text \<open>\<open>posixpath.isabs\<close> and \<open>posixpath.join\<close> with two arguments.\<close>

definition isabs :: "string \<Rightarrow> bool" where
  "isabs s = prefix ''/'' s"

definition join :: "string \<Rightarrow> string \<Rightarrow> string" where
  "join a b =
     (if prefix ''/'' b then b
      else if a = [] \<or> suffix ''/'' a then a @ b
      else a @ ''/'' @ b)"

text \<open>
  \<open>posixpath.normpath\<close>: one or two leading slashes are kept (three or more become one),
  empty and \<open>.\<close> components are dropped, and \<open>..\<close> removes the component before it.
\<close>

definition initial_slashes :: "string \<Rightarrow> nat" where
  "initial_slashes s =
     (if \<not> prefix ''/'' s then 0
      else if prefix ''//'' s \<and> \<not> prefix ''///'' s then 2
      else 1)"

definition normpath_comp :: "nat \<Rightarrow> string list \<Rightarrow> string \<Rightarrow> string list" where
  "normpath_comp slashes new_comps c =
     (if c = [] \<or> c = ''.'' then new_comps
      else if c \<noteq> ''..'' \<or> (slashes = 0 \<and> new_comps = [])
              \<or> (new_comps \<noteq> [] \<and> last new_comps = ''..'')
      then new_comps @ [c]
      else if new_comps \<noteq> [] then butlast new_comps
      else new_comps)"

definition normpath :: "string \<Rightarrow> string" where
  "normpath s =
     (if s = [] then ''.''
      else let slashes = initial_slashes s;
               comps = foldl (normpath_comp slashes) [] (split_sep s);
               r = replicate slashes (CHR ''/'') @ join_sep comps
           in if r = [] then ''.'' else r)"

definition abspath :: "env \<Rightarrow> string \<Rightarrow> string" where
  "abspath e s = normpath (if isabs s then s else join (getcwd e) s)"

subsection \<open>Requests and responses\<close>

record request = "method" :: string
  path_info :: string

text \<open>Keyword arguments (\<open>**kw\<close>): a dictionary from names to values, \<open>None\<close> a Python None.\<close>

type_synonym kwargs = "string \<rightharpoonup> string option"

definition setdefault :: "string \<Rightarrow> string option \<Rightarrow> kwargs \<Rightarrow> kwargs" where
  "setdefault k v m = (case m k of None \<Rightarrow> m(k \<mapsto> v) | Some old \<Rightarrow> m)"

text \<open>
  The \<open>webob\<close> response built on line 68 is the record of the arguments it is built from,
  with the status 200 it is built with; \<open>conditional_response_app\<close> leaves range and
  conditional requests to \<open>webob\<close>, which may answer them with another status.
\<close>

record file_response =
  app_iter :: FileIter
  content_length :: int
  last_modified :: int
  response_kw :: kwargs

datatype response =
    HTTPMethodNotAllowed string
  | HTTPNotFound string
  | HTTPForbidden "string option"
  | Response file_response

fun status :: "response \<Rightarrow> nat" where
  "status (HTTPMethodNotAllowed detail) = 405"
| "status (HTTPNotFound comment) = 404"
| "status (HTTPForbidden detail) = 403"
| "status (Response r) = 200"

subsection \<open>\<open>FileApp\<close>\<close>

record FileApp =
  filename :: string
  kw :: kwargs

definition FileApp_init :: "env \<Rightarrow> string \<Rightarrow> kwargs \<Rightarrow> FileApp" where
  "FileApp_init e name kwds =
     (let (content_type, content_encoding) = guess_type e name
      in \<lparr>filename = name,
          kw = setdefault ''accept_ranges'' (Some ''bytes'')
                 (setdefault ''content_encoding'' content_encoding
                    (setdefault ''content_type'' content_type kwds))\<rparr>)"

text \<open>\<open>FileApp.__call__\<close>: the value it returns and the file system calls it made.\<close>

definition FileApp_call :: "env \<Rightarrow> FileApp \<Rightarrow> request \<Rightarrow> response \<times> syscall list" where
  "FileApp_call e self req =
     (if method req \<notin> {''GET'', ''HEAD''}
      then (HTTPMethodNotAllowed (''You cannot '' @ method req @ '' a file''), [])
      else (case stat_of e (filename self) of
          Inl err \<Rightarrow>
            (HTTPNotFound (''Can'' @ [CHR 0x27] @ ''t open '' @ repr_of e (filename self)
                           @ '': '' @ str_of err),
             [Stat (filename self)])
        | Inr st \<Rightarrow>
            (case open_file e (filename self) of
               Inl err \<Rightarrow>
                 (HTTPForbidden
                    (Some (''You are not permitted to view this file ('' @ str_of err @ '')'')),
                  [Stat (filename self), Open (filename self)])
             | Inr f \<Rightarrow>
                 (Response \<lparr>app_iter = FileIter f, content_length = st_size st,
                            last_modified = st_mtime st, response_kw = kw self\<rparr>,
                  [Stat (filename self), Open (filename self)]))))"

subsection \<open>\<open>DirectoryApp\<close>\<close>

record DirectoryApp =
  path :: string
  fileapp_kw :: kwargs

text \<open>The constructor; the \<open>assert\<close> of line 129 fails with AssertionError.\<close>

definition DirectoryApp_init :: "env \<Rightarrow> string \<Rightarrow> kwargs \<Rightarrow> py_error + DirectoryApp" where
  "DirectoryApp_init e p kwds =
     (let a = abspath e p;
          root = (if \<not> suffix ''/'' a then a @ ''/'' else a)
      in if isdir e root then Inr \<lparr>path = root, fileapp_kw = kwds\<rparr>
         else Inl AssertionError)"

definition make_fileapp :: "env \<Rightarrow> DirectoryApp \<Rightarrow> string \<Rightarrow> FileApp" where
  "make_fileapp e self p = FileApp_init e p (fileapp_kw self)"

text \<open>
  \<open>DirectoryApp.__call__\<close> returns a response or a \<open>FileApp\<close>; the decorator \<open>wsgify\<close> then
  calls a returned application with the same request.
\<close>

datatype returned = Resp response | App FileApp

definition candidate :: "env \<Rightarrow> DirectoryApp \<Rightarrow> request \<Rightarrow> string" where
  "candidate e self req = abspath e (join (path self) (lstrip_sep (path_info req)))"

definition DirectoryApp_call :: "env \<Rightarrow> DirectoryApp \<Rightarrow> request \<Rightarrow> returned \<times> syscall list" where
  "DirectoryApp_call e self req =
     (let p = candidate e self req
      in if \<not> isfile e p then (Resp (HTTPNotFound p), [Stat p])
         else if \<not> prefix (path self) p then (Resp (HTTPForbidden None), [Stat p])
         else (App (make_fileapp e self p), [Stat p]))"

definition wsgify :: "env \<Rightarrow> returned \<times> syscall list \<Rightarrow> request \<Rightarrow> response \<times> syscall list" where
  "wsgify e ret req =
     (case ret of
        (Resp r, calls) \<Rightarrow> (r, calls)
      | (App a, calls) \<Rightarrow> (case FileApp_call e a req of (r, calls') \<Rightarrow> (r, calls @ calls')))"

definition DirectoryApp_respond :: "env \<Rightarrow> DirectoryApp \<Rightarrow> request \<Rightarrow> response \<times> syscall list" where
  "DirectoryApp_respond e self req = wsgify e (DirectoryApp_call e self req) req"

subsection \<open>The algorithm of the byte-range iterator as the specification words it\<close>

text \<open>
  The specification describes the iterator as a procedure: if \<open>seek\<close> is set and non-zero,
  reposition the file and, if \<open>limit\<close> is set, reduce it by \<open>seek\<close>; then, in each round,
  read \<open>min(block_size, limit)\<close> bytes when \<open>limit\<close> is set and \<open>block_size\<close> bytes
  otherwise; stop on an empty read; otherwise yield the chunk, take its length off
  \<open>limit\<close> when bounded, and stop once \<open>limit \<le> 0\<close>. \<open>spec_read_loop f limit bs ds f'\<close>
  holds when the rounds started on \<open>f\<close> yield the chunks \<open>ds\<close> and leave the file as \<open>f'\<close>.
\<close>

inductive spec_read_loop :: "pyfile \<Rightarrow> int option \<Rightarrow> int \<Rightarrow> bytes list \<Rightarrow> pyfile \<Rightarrow> bool" where
  spec_empty_unbounded:
    "file_read f bs = Inr ([], f') \<Longrightarrow> spec_read_loop f None bs [] f'"
| spec_empty_bounded:
    "file_read f (min bs l) = Inr ([], f') \<Longrightarrow> spec_read_loop f (Some l) bs [] f'"
| spec_chunk_unbounded:
    "file_read f bs = Inr (d, f') \<Longrightarrow> d \<noteq> [] \<Longrightarrow> spec_read_loop f' None bs ds f'' \<Longrightarrow>
     spec_read_loop f None bs (d # ds) f''"
| spec_chunk_last:
    "file_read f (min bs l) = Inr (d, f') \<Longrightarrow> d \<noteq> [] \<Longrightarrow> l - int (length d) \<le> 0 \<Longrightarrow>
     spec_read_loop f (Some l) bs [d] f'"
| spec_chunk_bounded:
    "file_read f (min bs l) = Inr (d, f') \<Longrightarrow> d \<noteq> [] \<Longrightarrow> 0 < l - int (length d) \<Longrightarrow>
     spec_read_loop f' (Some (l - int (length d))) bs ds f'' \<Longrightarrow>
     spec_read_loop f (Some l) bs (d # ds) f''"

inductive spec_iter_range ::
  "pyfile \<Rightarrow> int option \<Rightarrow> int option \<Rightarrow> int \<Rightarrow> bytes list \<Rightarrow> pyfile \<Rightarrow> bool" where
  spec_no_seek:
    "seek = None \<or> seek = Some 0 \<Longrightarrow> spec_read_loop f limit bs ds f' \<Longrightarrow>
     spec_iter_range f seek limit bs ds f'"
| spec_seek_unbounded:
    "s \<noteq> 0 \<Longrightarrow> file_seek f s = Inr f0 \<Longrightarrow> spec_read_loop f0 None bs ds f' \<Longrightarrow>
     spec_iter_range f (Some s) None bs ds f'"
| spec_seek_bounded:
    "s \<noteq> 0 \<Longrightarrow> file_seek f s = Inr f0 \<Longrightarrow> spec_read_loop f0 (Some (l - s)) bs ds f' \<Longrightarrow>
     spec_iter_range f (Some s) (Some l) bs ds f'"

code_pred spec_read_loop .

code_pred spec_iter_range .

subsection \<open>Example inputs\<close>

text \<open>
  A Python 3 run-time system and a Python 2 one; the operating system lets a seek go up to
  \<open>2^40\<close>, and a read may allocate up to \<open>2^31\<close> bytes.
\<close>

definition python3 :: runtime where
  "python3 = \<lparr>ftype = BufferedReader, max_offset = 2 ^ 40, max_read = 2 ^ 31\<rparr>"

definition python2 :: runtime where
  "python2 = \<lparr>ftype = PyFile, max_offset = 2 ^ 40, max_read = 2 ^ 31\<rparr>"

text \<open>A file of thirty bytes, just opened, under Python 3 and under Python 2.\<close>

definition f30 :: pyfile where
  "f30 = \<lparr>content = ''abcdefghijklmnopqrstuvwxyz0123'', pos = 0, closed = False,
          rt = python3\<rparr>"

definition f30_py2 :: pyfile where
  "f30_py2 = f30\<lparr>rt := python2\<rparr>"

text \<open>
  A file system with the directories \<open>/srv/www\<close> and \<open>/data\<close>, readable regular files
  \<open>/srv/www/index.html\<close>, \<open>/srv/secret.txt\<close> and \<open>/database/x\<close>, and a regular file
  \<open>/srv/www/private.txt\<close> that may not be opened. Nothing else exists.
\<close>

definition enoent :: os_error where
  "enoent = OSError 2 ''[Errno 2] No such file or directory''"

definition eacces :: os_error where
  "eacces = OSError 13 ''[Errno 13] Permission denied''"

definition example_stat :: "string \<Rightarrow> os_error + stat_result" where
  "example_stat p =
     (if p \<in> {''/srv/www'', ''/srv/www/'', ''/data'', ''/data/''}
      then Inr \<lparr>st_kind = S_IFDIR, st_size = 4096, st_mtime = 0\<rparr>
      else if p \<in> {''/srv/www/index.html'', ''/srv/www/private.txt'', ''/srv/secret.txt'',
                    ''/database/x''}
      then Inr \<lparr>st_kind = S_IFREG, st_size = 30, st_mtime = 0\<rparr>
      else Inl enoent)"

definition example_open :: "string \<Rightarrow> os_error + bytes" where
  "example_open p =
     (if p \<in> {''/srv/www/index.html'', ''/srv/secret.txt'', ''/database/x''}
      then Inr (content f30)
      else if p = ''/srv/www/private.txt'' then Inl eacces
      else Inl enoent)"

definition example_env :: env where
  "example_env =
     \<lparr>getcwd = ''/home/user'', stat_of = example_stat, open_rb = example_open,
      guess_type = (\<lambda>p. (None, None)),
      repr_of = (\<lambda>s. [CHR 0x27] @ s @ [CHR 0x27]),
      runtime_of = python3\<rparr>"

definition www_app :: DirectoryApp where
  "www_app = \<lparr>path = ''/srv/www/'', fileapp_kw = Map.empty\<rparr>"

definition data_app :: DirectoryApp where
  "data_app = \<lparr>path = ''/data/'', fileapp_kw = Map.empty\<rparr>"

definition get :: "string \<Rightarrow> request" where
  "get p = \<lparr>method = ''GET'', path_info = p\<rparr>"

definition post :: "string \<Rightarrow> request" where
  "post p = \<lparr>method = ''POST'', path_info = p\<rparr>"

text \<open>\<open>FileApp(name)\<close>, constructed without keyword arguments.\<close>

definition plain_app :: "string \<Rightarrow> FileApp" where
  "plain_app name = FileApp_init example_env name Map.empty"

text \<open>The same file system without the file \<open>/srv/secret.txt\<close>.\<close>

definition env_without_secret :: env where
  "env_without_secret =
     example_env\<lparr>stat_of := (\<lambda>p. if p = ''/srv/secret.txt'' then Inl enoent else example_stat p)\<rparr>"

section \<open>Properties of the byte-range iterator\<close>

declare read_loop.simps [simp del]

lemma file_read_Inr:
  "file_read f n = Inr (d, f') \<Longrightarrow> \<not> closed f \<and> \<not> closed f' \<and> content f' = content f"
  by (auto simp: file_read_def Let_def split: if_splits)

lemma file_read_accepted:
  assumes "\<not> closed f" and "read_accepts f n"
  shows "file_read f n =
           Inr (if n < 0 then drop (pos f) (content f) else take (nat n) (drop (pos f) (content f)),
                f\<lparr>pos := pos f + length (if n < 0 then drop (pos f) (content f)
                                            else take (nat n) (drop (pos f) (content f)))\<rparr>)"
  using assms by (simp add: file_read_def Let_def)

lemma read_accepts_small: "- 1 \<le> n \<Longrightarrow> n \<le> default_block_size \<Longrightarrow> read_accepts f n"
  by (simp add: read_accepts_def)

lemma seek_accepts_inside: "0 \<le> s \<Longrightarrow> s \<le> int (length (content f)) \<Longrightarrow> seek_accepts f s"
  by (simp add: seek_accepts_def)

lemma read_loop_closed:
  "closed f \<Longrightarrow> read_loop f limit b = \<lparr>chunks = [], handle = f, raised = Some ValueError\<rparr>"
  by (subst read_loop.simps) (simp add: file_read_def)

lemma read_loop_eof:
  "\<not> closed f \<Longrightarrow> read_accepts f (read_size limit b) \<Longrightarrow> length (content f) \<le> pos f \<Longrightarrow>
   read_loop f limit b = \<lparr>chunks = [], handle = f, raised = None\<rparr>"
  by (subst read_loop.simps) (simp add: file_read_def)

lemma raised_yield: "raised (yield d r) = raised r"
  by (simp add: yield_def)

lemma spec_read_loop_sound:
  "spec_read_loop f limit bs ds f' \<Longrightarrow>
   read_loop f limit bs = \<lparr>chunks = ds, handle = f', raised = None\<rparr>"
proof (induction rule: spec_read_loop.induct)
  case (spec_empty_unbounded f bs f')
  then show ?case by (subst read_loop.simps) (simp add: read_size_def)
next
  case (spec_empty_bounded f bs l f')
  then show ?case by (subst read_loop.simps) (simp add: read_size_def)
next
  case (spec_chunk_unbounded f bs d f' ds f'')
  then show ?case by (subst read_loop.simps) (simp add: read_size_def yield_def)
next
  case (spec_chunk_last f bs l d f')
  then show ?case by (subst read_loop.simps) (simp add: read_size_def)
next
  case (spec_chunk_bounded f bs l d f' ds f'')
  then show ?case by (subst read_loop.simps) (simp add: read_size_def yield_def)
qed

lemma spec_read_loop_complete:
  "raised (read_loop f limit bs) = None \<Longrightarrow>
   spec_read_loop f limit bs (chunks (read_loop f limit bs)) (handle (read_loop f limit bs))"
proof (induction f limit bs rule: read_loop.induct)
  case (1 f limit bs)
  have "\<exists>d f'. file_read f (read_size limit bs) = Inr (d, f')"
  proof (cases "file_read f (read_size limit bs)")
    case (Inl e)
    then have "raised (read_loop f limit bs) = Some e"
      by (subst read_loop.simps) simp
    then show ?thesis using 1(3) by simp
  next
    case (Inr x)
    then show ?thesis by (cases x) simp
  qed
  then obtain d f' where rd: "file_read f (read_size limit bs) = Inr (d, f')"
    by blast
  show ?case
  proof (cases "d = []")
    case True
    then show ?thesis using rd
      by (subst (1 2) read_loop.simps)
         (cases limit; simp add: read_size_def spec_empty_unbounded spec_empty_bounded)
  next
    case False
    show ?thesis
    proof (cases limit)
      case None
      have "raised (read_loop f' None bs) = None"
        using 1(3) rd False None by (subst (asm) read_loop.simps) (simp add: raised_yield)
      then have "spec_read_loop f' None bs (chunks (read_loop f' None bs))
                   (handle (read_loop f' None bs))"
        using 1(1)[OF rd refl False None] by simp
      then show ?thesis using rd False None
        by (subst (1 2) read_loop.simps)
           (simp add: read_size_def yield_def spec_chunk_unbounded)
    next
      case (Some l)
      show ?thesis
      proof (cases "l - int (length d) \<le> 0")
        case True
        then show ?thesis using rd False Some
          by (subst (1 2) read_loop.simps) (simp add: read_size_def spec_chunk_last)
      next
        case nle: False
        have "raised (read_loop f' (Some (l - int (length d))) bs) = None"
          using 1(3) rd False Some nle
          by (subst (asm) read_loop.simps) (simp add: raised_yield)
        then have "spec_read_loop f' (Some (l - int (length d))) bs
                (chunks (read_loop f' (Some (l - int (length d))) bs))
                (handle (read_loop f' (Some (l - int (length d))) bs))"
          using 1(2)[OF rd refl False Some nle] by simp
        then show ?thesis using rd False Some nle
          by (subst (1 2) read_loop.simps)
             (simp add: read_size_def yield_def spec_chunk_bounded)
      qed
    qed
  qed
qed

lemma read_loop_negative_limit:
  assumes "\<not> closed f" "l < 0" "read_accepts f (read_size (Some l) bs)"
  shows "read_loop f (Some l) bs =
     (if pos f < length (content f)
      then \<lparr>chunks = [drop (pos f) (content f)], handle = f\<lparr>pos := length (content f)\<rparr>, raised = None\<rparr>
      else \<lparr>chunks = [], handle = f, raised = None\<rparr>)"
proof -
  have neg: "read_size (Some l) bs < 0"
    using assms(2) by (simp add: read_size_def min_def)
  show ?thesis
    using assms(2) neg
    by (subst read_loop.simps) (simp add: file_read_accepted [OF assms(1,3)])
qed

lemma read_loop_refused:
  assumes "\<not> closed f" "\<not> read_accepts f (read_size limit bs)"
  shows "read_loop f limit bs
           = \<lparr>chunks = [], handle = f, raised = Some (read_error f (read_size limit bs))\<rparr>"
  using assms by (subst read_loop.simps) (simp add: file_read_def)

lemma read_loop_within_limit:
  "limit = Some l \<Longrightarrow> 0 \<le> l \<Longrightarrow> 0 \<le> bs \<Longrightarrow>
   int (length (concat (chunks (read_loop f limit bs)))) \<le> l"
proof (induction f limit bs arbitrary: l rule: read_loop.induct)
  case (1 f limit bs)
  show ?case
  proof (cases "file_read f (read_size limit bs)")
    case (Inl e)
    then show ?thesis using 1(4) by (subst read_loop.simps) simp
  next
    case (Inr x)
    then obtain d f' where rd: "file_read f (read_size limit bs) = Inr (d, f')"
      by (cases x) simp
    have len: "int (length d) \<le> l"
      using rd 1(3,4,5) by (auto simp: file_read_def read_size_def Let_def split: if_splits)
    show ?thesis
    proof (cases "d = [] \<or> l - int (length d) \<le> 0")
      case True
      then show ?thesis using rd len 1(3,4)
        by (subst read_loop.simps) auto
    next
      case False
      then have ne: "d \<noteq> []" and left: "\<not> l - int (length d) \<le> 0" by auto
      have "int (length (concat (chunks (read_loop f' (Some (l - int (length d))) bs))))
              \<le> l - int (length d)"
        using 1(2)[OF rd refl ne 1(3) left refl] left 1(5) by simp
      then show ?thesis using rd ne left 1(3)
        by (subst read_loop.simps) (simp add: yield_def)
    qed
  qed
qed

lemma spec_iter_range_sound:
  assumes "spec_iter_range f seek limit bs ds f'"
  shows "app_iter_range (FileIter f) seek limit bs
           = \<lparr>chunks = ds, handle = file_close f', raised = None\<rparr>"
  using assms
proof (cases rule: spec_iter_range.cases)
  case spec_no_seek
  then show ?thesis
    by (auto simp: app_iter_range_def truthy_def finally_close_def dest: spec_read_loop_sound)
next
  case (spec_seek_unbounded s f0)
  then show ?thesis
    by (auto simp: app_iter_range_def truthy_def finally_close_def dest: spec_read_loop_sound)
next
  case (spec_seek_bounded s f0 l)
  then show ?thesis
    by (auto simp: app_iter_range_def truthy_def finally_close_def dest: spec_read_loop_sound)
qed

lemma spec_iter_range_complete:
  assumes "raised (app_iter_range (FileIter f) seek limit bs) = None"
  shows "\<exists>f'. spec_iter_range f seek limit bs (chunks (app_iter_range (FileIter f) seek limit bs)) f'
           \<and> handle (app_iter_range (FileIter f) seek limit bs) = file_close f'"
proof (cases "truthy seek")
  case False
  then have ns: "seek = None \<or> seek = Some 0"
    by (auto simp: truthy_def split: option.splits)
  have "raised (read_loop f limit bs) = None"
    using assms False by (simp add: app_iter_range_def finally_close_def)
  then have "spec_iter_range f seek limit bs (chunks (read_loop f limit bs)) (handle (read_loop f limit bs))"
    using ns spec_read_loop_complete by (intro spec_no_seek)
  then show ?thesis using False
    by (auto simp: app_iter_range_def finally_close_def)
next
  case True
  then obtain s where s: "seek = Some s" "s \<noteq> 0"
    by (auto simp: truthy_def split: option.splits)
  obtain f0 where sk: "file_seek f s = Inr f0"
    using assms True s by (cases "file_seek f s") (auto simp: app_iter_range_def)
  show ?thesis
  proof (cases limit)
    case None
    have "raised (read_loop f0 None bs) = None"
      using assms True s sk None by (simp add: app_iter_range_def finally_close_def)
    then have "spec_iter_range f (Some s) None bs (chunks (read_loop f0 None bs)) (handle (read_loop f0 None bs))"
      using s(2) sk spec_read_loop_complete by (intro spec_seek_unbounded)
    then show ?thesis using True s None sk
      by (auto simp: app_iter_range_def finally_close_def)
  next
    case (Some l)
    have "raised (read_loop f0 (Some (l - s)) bs) = None"
      using assms True s sk Some by (simp add: app_iter_range_def finally_close_def)
    then have "spec_iter_range f (Some s) (Some l) bs (chunks (read_loop f0 (Some (l - s)) bs))
            (handle (read_loop f0 (Some (l - s)) bs))"
      using s(2) sk spec_read_loop_complete by (intro spec_seek_bounded)
    then show ?thesis using True s Some sk
      by (auto simp: app_iter_range_def finally_close_def)
  qed
qed

lemma read_accepts_pos: "read_accepts (f\<lparr>pos := p\<rparr>) n = read_accepts f n"
  by (simp add: read_accepts_def)

lemmas iter_eval =
  f30_def f30_py2_def python3_def python2_def app_iter_range_def truthy_def file_seek_def
  seek_accepts_def seek_error_def read_loop.simps file_read_def read_accepts_def read_error_def
  read_size_def default_block_size_def finally_close_def file_close_def yield_def

text \<open>
  Claim C2, as the code has it. With \<open>seek = 10\<close>, \<open>limit = 20\<close> and \<open>block_size = 5\<close> the
  limit is reduced to 10 before the loop, so a file of at least 20 bytes yields exactly two
  chunks of 5 bytes; together they are the bytes \<open>[10, 20)\<close> of the file. The run ends
  without an exception and the file is closed. (The docstring says that \<open>limit\<close> reads the
  file up to a position.)
\<close>

theorem range_10_20_by_5:
  assumes "\<not> closed f" and "20 \<le> length (content f)"
  shows "chunks (app_iter_range (FileIter f) (Some 10) (Some 20) 5)
           = [take 5 (drop 10 (content f)), take 5 (drop 15 (content f))]
       \<and> map length (chunks (app_iter_range (FileIter f) (Some 10) (Some 20) 5)) = [5, 5]
       \<and> concat (chunks (app_iter_range (FileIter f) (Some 10) (Some 20) 5))
           = take 10 (drop 10 (content f))
       \<and> raised (app_iter_range (FileIter f) (Some 10) (Some 20) 5) = None
       \<and> closed (handle (app_iter_range (FileIter f) (Some 10) (Some 20) 5))"
proof -
  define d1 d2 where "d1 = take 5 (drop 10 (content f))" and "d2 = take 5 (drop 15 (content f))"
  let ?f1 = "f\<lparr>pos := 10\<rparr>" and ?f2 = "f\<lparr>pos := 15\<rparr>" and ?f3 = "f\<lparr>pos := 20\<rparr>"
  have l1: "length d1 = 5" and l2: "length d2 = 5"
    using assms by (auto simp: d1_def d2_def)
  have ne1: "d1 \<noteq> []" and ne2: "d2 \<noteq> []"
    using l1 l2 by auto
  have acc: "read_accepts g 5" for g
    by (simp add: read_accepts_def default_block_size_def)
  have sk: "file_seek f 10 = Inr ?f1"
    using assms by (simp add: file_seek_def seek_accepts_def)
  have r1: "file_read ?f1 5 = Inr (d1, ?f2)"
    using assms l1 by (simp add: file_read_def acc Let_def d1_def d2_def)
  have r2: "file_read ?f2 5 = Inr (d2, ?f3)"
    using assms l2 by (simp add: file_read_def acc Let_def d1_def d2_def)
  have step2: "read_loop ?f2 (Some 5) 5 = \<lparr>chunks = [d2], handle = ?f3, raised = None\<rparr>"
    by (subst read_loop.simps) (simp add: read_size_def r2 ne2 l2)
  have step1: "read_loop ?f1 (Some 10) 5 = \<lparr>chunks = [d1, d2], handle = ?f3, raised = None\<rparr>"
    by (subst read_loop.simps) (simp add: read_size_def r1 ne1 l1 step2 yield_def)
  have run: "app_iter_range (FileIter f) (Some 10) (Some 20) 5
      = \<lparr>chunks = [d1, d2], handle = file_close ?f3, raised = None\<rparr>"
    by (simp add: app_iter_range_def truthy_def sk step1 finally_close_def)
  have cat: "d1 @ d2 = take 10 (drop 10 (content f))"
    using take_add [of 5 5 "drop 10 (content f)"] by (simp add: d1_def d2_def)
  have "chunks (app_iter_range (FileIter f) (Some 10) (Some 20) 5) = [d1, d2]"
    by (simp add: run)
  moreover have "closed (handle (app_iter_range (FileIter f) (Some 10) (Some 20) 5))"
    by (simp add: run file_close_def)
  moreover have "raised (app_iter_range (FileIter f) (Some 10) (Some 20) 5) = None"
    by (simp add: run)
  ultimately show ?thesis
    using l1 l2 cat by (simp add: d1_def d2_def)
qed

theorem range_10_20_by_5_witness:
  "\<not> closed f30 \<and> 20 \<le> length (content f30)
   \<and> chunks (app_iter_range (FileIter f30) (Some 10) (Some 20) 5) = [''klmno'', ''pqrst'']
   \<and> closed (handle (app_iter_range (FileIter f30) (Some 10) (Some 20) 5))"
  using range_10_20_by_5 [of f30] by (simp add: f30_def)

text \<open>
  Claim C2 as the specification states it (four chunks, the bytes \<open>[10, 30)\<close>) fails on the
  thirty-byte file: the iterator yields two chunks, the bytes \<open>[10, 20)\<close>.
\<close>

theorem four_chunks_counterexample:
  "30 \<le> length (content f30)
   \<and> chunks (app_iter_range (FileIter f30) (Some 10) (Some 20) 5) = [''klmno'', ''pqrst'']
   \<and> \<not> (map length (chunks (app_iter_range (FileIter f30) (Some 10) (Some 20) 5)) = [5, 5, 5, 5]
        \<and> concat (chunks (app_iter_range (FileIter f30) (Some 10) (Some 20) 5))
            = take 20 (drop 10 (content f30)))"
  by (simp add: iter_eval)

text \<open>
  Claim C3. The iterator follows the algorithm the specification words: every run of that
  algorithm is the run of \<open>app_iter_range\<close> (same chunks, the file afterwards closed, no
  exception), and every run of \<open>app_iter_range\<close> that raises nothing (the seek and the reads
  succeed) is a run of the algorithm.
\<close>

theorem app_iter_range_follows_algorithm:
  "(spec_iter_range f seek limit bs ds f' \<longrightarrow>
      app_iter_range (FileIter f) seek limit bs
        = \<lparr>chunks = ds, handle = file_close f', raised = None\<rparr>)
   \<and> (raised (app_iter_range (FileIter f) seek limit bs) = None \<longrightarrow>
      (\<exists>f'. spec_iter_range f seek limit bs
               (chunks (app_iter_range (FileIter f) seek limit bs)) f'
           \<and> handle (app_iter_range (FileIter f) seek limit bs) = file_close f'))"
  using spec_iter_range_sound spec_iter_range_complete by blast

theorem app_iter_range_follows_algorithm_witness:
  "raised (app_iter_range (FileIter f30) (Some 10) (Some 20) 5) = None
   \<and> (\<exists>f'. spec_iter_range f30 (Some 10) (Some 20) 5 [''klmno'', ''pqrst''] f'
          \<and> handle (app_iter_range (FileIter f30) (Some 10) (Some 20) 5) = file_close f')"
proof -
  have h: "raised (app_iter_range (FileIter f30) (Some 10) (Some 20) 5) = None"
    by (simp add: iter_eval)
  have c: "chunks (app_iter_range (FileIter f30) (Some 10) (Some 20) 5) = [''klmno'', ''pqrst'']"
    by (simp add: iter_eval)
  show ?thesis
    using h c app_iter_range_follows_algorithm [of f30 "Some 10" "Some 20" 5 "[]" f30]
    by simp
qed

text \<open>
  Claim C7. Called with \<open>seek = 0\<close> the iterator gives the same chunks, the same file object
  afterwards and the same outcome as called with \<open>seek\<close> omitted, for every file, limit and
  block size: 0 is falsy, so neither call repositions the file or adjusts the limit.
\<close>

theorem seek_zero_same_as_omitted:
  "app_iter_range self (Some 0) limit block_size = app_iter_range self None limit block_size"
  by (simp add: app_iter_range_def truthy_def)

text \<open>
  Claim C8, as the code has it. On an open file, the iterator called with \<open>limit = 0\<close> and no
  seek (with a block size that is not negative, as the default is) yields no chunk, raises
  nothing, and leaves the file closed. So does the iterator called with a seek offset at or
  behind the end of the file, when the file accepts the offset and the size of the first
  read, \<open>min(block_size, limit - seek)\<close> or \<open>block_size\<close>.
\<close>

theorem empty_range_closes:
  assumes "\<not> closed (self_file self)"
  shows "(0 \<le> bs \<longrightarrow>
            app_iter_range self None (Some 0) bs
              = \<lparr>chunks = [], handle = file_close (self_file self), raised = None\<rparr>)
       \<and> (int (length (content (self_file self))) \<le> s
            \<and> seek_accepts (self_file self) s
            \<and> read_accepts (self_file self)
                (read_size (case limit of Some l \<Rightarrow> Some (l - s) | None \<Rightarrow> None) bs) \<longrightarrow>
            chunks (app_iter_range self (Some s) limit bs) = []
            \<and> raised (app_iter_range self (Some s) limit bs) = None
            \<and> closed (handle (app_iter_range self (Some s) limit bs)))"
proof (intro conjI impI)
  assume "0 \<le> bs"
  then have "read_size (Some 0) bs = 0"
    by (simp add: read_size_def)
  then have "read_loop (self_file self) (Some 0) bs
               = \<lparr>chunks = [], handle = self_file self, raised = None\<rparr>"
    using assms
    by (subst read_loop.simps)
       (simp add: file_read_def read_accepts_def default_block_size_def)
  then show "app_iter_range self None (Some 0) bs
               = \<lparr>chunks = [], handle = file_close (self_file self), raised = None\<rparr>"
    by (simp add: app_iter_range_def truthy_def finally_close_def)
next
  let ?lim = "case limit of Some l \<Rightarrow> Some (l - s) | None \<Rightarrow> None"
  assume a: "int (length (content (self_file self))) \<le> s
            \<and> seek_accepts (self_file self) s
            \<and> read_accepts (self_file self) (read_size ?lim bs)"
  let ?f0 = "(self_file self)\<lparr>pos := nat s\<rparr>"
  have run: "app_iter_range self (Some s) limit bs
      = (if s = 0 then \<lparr>chunks = [], handle = file_close (self_file self), raised = None\<rparr>
         else \<lparr>chunks = [], handle = file_close ?f0, raised = None\<rparr>)"
  proof (cases "s = 0")
    case True
    then have eof: "length (content (self_file self)) \<le> pos (self_file self)"
      using a by simp
    have "?lim = limit" using True by (cases limit) simp_all
    then have "read_accepts (self_file self) (read_size limit bs)"
      using a by simp
    then show ?thesis using True assms eof
      by (simp add: app_iter_range_def truthy_def finally_close_def read_loop_eof)
  next
    case False
    have "\<not> closed ?f0" "read_accepts ?f0 (read_size ?lim bs)"
      "length (content ?f0) \<le> pos ?f0"
      using assms a by (auto simp: read_accepts_pos)
    then have rl: "read_loop ?f0 ?lim bs = \<lparr>chunks = [], handle = ?f0, raised = None\<rparr>"
      by (rule read_loop_eof)
    have lim: "(case limit of Some l \<Rightarrow> Some (l - the (Some s)) | None \<Rightarrow> None) = ?lim"
      by (cases limit) simp_all
    have "file_seek (self_file self) s = Inr ?f0"
      using assms a by (simp add: file_seek_def)
    then show ?thesis using False rl
      by (simp add: app_iter_range_def truthy_def finally_close_def lim)
  qed
  show "chunks (app_iter_range self (Some s) limit bs) = []" by (simp add: run)
  show "raised (app_iter_range self (Some s) limit bs) = None" by (simp add: run)
  show "closed (handle (app_iter_range self (Some s) limit bs))"
    by (simp add: run file_close_def)
qed

theorem empty_range_closes_witness:
  "\<not> closed (self_file (FileIter f30))
   \<and> (0::int) \<le> default_block_size
   \<and> app_iter_range (FileIter f30) None (Some 0) default_block_size
       = \<lparr>chunks = [], handle = file_close f30, raised = None\<rparr>
   \<and> int (length (content (self_file (FileIter f30)))) \<le> 30
   \<and> seek_accepts (self_file (FileIter f30)) 30
   \<and> read_accepts (self_file (FileIter f30)) (read_size (Some (40 - 30)) default_block_size)
   \<and> chunks (app_iter_range (FileIter f30) (Some 30) (Some 40) default_block_size) = []
   \<and> raised (app_iter_range (FileIter f30) (Some 30) (Some 40) default_block_size) = None
   \<and> closed (handle (app_iter_range (FileIter f30) (Some 30) (Some 40) default_block_size))"
  using empty_range_closes [of "FileIter f30" default_block_size 30 "Some 40"]
  by (simp add: f30_def python3_def default_block_size_def seek_accepts_def read_accepts_def
      read_size_def)

text \<open>
  Claim C8 as the specification states it (for every seek at or behind the end of the file)
  fails under Python 3. The offset \<open>2^63\<close> does not fit the offset type: the seek of line 95
  raises ValueError before the \<open>try\<close>, and the file stays open. With \<open>seek = 30\<close> and
  \<open>limit = 20\<close> the first read has the size \<open>-10\<close> and raises ValueError.
\<close>

theorem refused_seek_counterexample:
  "int (length (content f30)) \<le> 2 ^ 63
   \<and> raised (app_iter_range (FileIter f30) (Some (2 ^ 63)) None default_block_size)
       = Some ValueError
   \<and> \<not> closed (handle (app_iter_range (FileIter f30) (Some (2 ^ 63)) None default_block_size))
   \<and> int (length (content f30)) \<le> 30
   \<and> raised (app_iter_range (FileIter f30) (Some 30) (Some 20) default_block_size)
       = Some ValueError"
  by (simp add: iter_eval)

text \<open>
  Claim C9, as the code has it. With \<open>seek\<close> and \<open>limit\<close> both set and \<open>limit < seek\<close> (on an
  open file that accepts the seek offset), the size of the first read,
  \<open>min(block_size, limit - seek)\<close>, is negative. Where the file object accepts that size
  (every negative size on a Python 2 file, only \<open>-1\<close> on a Python 3 one) the first read takes
  the whole rest of the file: the iterator yields it as one chunk and stops. Where it does
  not, the read raises (ValueError on a Python 3 file object, OverflowError for a size that
  does not fit the size type), nothing is yielded, and the file is closed. The bound
  \<open>total bytes \<le> limit - seek\<close> holds only if \<open>seek \<le> limit\<close>, and it does hold then
  for every block size that is not negative.
\<close>

theorem seek_beyond_limit:
  "(\<not> closed f \<and> seek_accepts f s \<and> l < s \<longrightarrow>
      read_size (Some (l - s)) bs < 0
      \<and> app_iter_range (FileIter f) (Some s) (Some l) bs
          = (let start = (if s = 0 then pos f else nat s)
             in if \<not> read_accepts f (read_size (Some (l - s)) bs)
                then \<lparr>chunks = [], handle = f\<lparr>pos := start, closed := True\<rparr>,
                      raised = Some (read_error f (read_size (Some (l - s)) bs))\<rparr>
                else if start < length (content f)
                then \<lparr>chunks = [drop start (content f)],
                      handle = f\<lparr>pos := length (content f), closed := True\<rparr>, raised = None\<rparr>
                else \<lparr>chunks = [], handle = f\<lparr>pos := start, closed := True\<rparr>, raised = None\<rparr>))
   \<and> (int (length (concat (chunks (app_iter_range (FileIter f) (Some s) (Some l) bs)))) \<le> l - s
        \<longrightarrow> s \<le> l)
   \<and> (s \<le> l \<and> 0 \<le> bs \<longrightarrow>
        int (length (concat (chunks (app_iter_range (FileIter f) (Some s) (Some l) bs)))) \<le> l - s)"
proof (intro conjI impI)
  assume a: "\<not> closed f \<and> seek_accepts f s \<and> l < s"
  show neg: "read_size (Some (l - s)) bs < 0"
    using a by (simp add: read_size_def min_def)
  define start where "start = (if s = 0 then pos f else nat s)"
  define f0 where "f0 = f\<lparr>pos := start\<rparr>"
  have op: "\<not> closed f0" and acc: "read_accepts f0 n = read_accepts f n" for n
    using a by (simp_all add: f0_def read_accepts_def)
  have l0: "l - s < 0" using a by simp
  have body: "app_iter_range (FileIter f) (Some s) (Some l) bs
                = finally_close (read_loop f0 (Some (l - s)) bs)"
  proof (cases "s = 0")
    case True
    then have "f0 = f" by (simp add: f0_def start_def)
    then show ?thesis using True by (simp add: app_iter_range_def truthy_def)
  next
    case False
    have "file_seek f s = Inr f0"
      using a False by (simp add: file_seek_def f0_def start_def)
    then show ?thesis using False by (simp add: app_iter_range_def truthy_def)
  qed
  have loop: "read_loop f0 (Some (l - s)) bs
      = (if \<not> read_accepts f (read_size (Some (l - s)) bs)
         then \<lparr>chunks = [], handle = f0,
               raised = Some (read_error f (read_size (Some (l - s)) bs))\<rparr>
         else if start < length (content f)
         then \<lparr>chunks = [drop start (content f)], handle = f0\<lparr>pos := length (content f)\<rparr>,
               raised = None\<rparr>
         else \<lparr>chunks = [], handle = f0, raised = None\<rparr>)"
  proof (cases "read_accepts f (read_size (Some (l - s)) bs)")
    case True
    then have "read_accepts f0 (read_size (Some (l - s)) bs)" by (simp add: acc)
    from read_loop_negative_limit [OF op l0 this] True show ?thesis
      by (simp add: f0_def)
  next
    case False
    then have "\<not> read_accepts f0 (read_size (Some (l - s)) bs)" by (simp add: acc)
    from read_loop_refused [OF op this] False neg show ?thesis
      by (simp add: read_error_def)
  qed
  show "app_iter_range (FileIter f) (Some s) (Some l) bs
          = (let start = (if s = 0 then pos f else nat s)
             in if \<not> read_accepts f (read_size (Some (l - s)) bs)
                then \<lparr>chunks = [], handle = f\<lparr>pos := start, closed := True\<rparr>,
                      raised = Some (read_error f (read_size (Some (l - s)) bs))\<rparr>
                else if start < length (content f)
                then \<lparr>chunks = [drop start (content f)],
                      handle = f\<lparr>pos := length (content f), closed := True\<rparr>, raised = None\<rparr>
                else \<lparr>chunks = [], handle = f\<lparr>pos := start, closed := True\<rparr>, raised = None\<rparr>)"
    unfolding body loop Let_def start_def [symmetric]
    by (simp add: finally_close_def file_close_def f0_def)
next
  assume "int (length (concat (chunks (app_iter_range (FileIter f) (Some s) (Some l) bs)))) \<le> l - s"
  moreover have "0 \<le> int (length (concat (chunks (app_iter_range (FileIter f) (Some s) (Some l) bs))))"
    by simp
  ultimately show "s \<le> l" by linarith
next
  assume a: "s \<le> l \<and> 0 \<le> bs"
  show "int (length (concat (chunks (app_iter_range (FileIter f) (Some s) (Some l) bs)))) \<le> l - s"
  proof (cases "s = 0")
    case True
    then show ?thesis using a read_loop_within_limit [of "Some l" l bs f]
      by (simp add: app_iter_range_def truthy_def finally_close_def)
  next
    case False
    show ?thesis
    proof (cases "file_seek f s")
      case (Inl e)
      then show ?thesis using False a
        by (simp add: app_iter_range_def truthy_def)
    next
      case (Inr f0)
      then show ?thesis
        using False a read_loop_within_limit [of "Some (l - s)" "l - s" bs f0]
        by (simp add: app_iter_range_def truthy_def finally_close_def)
    qed
  qed
qed

theorem seek_beyond_limit_witness:
  "\<not> closed f30_py2 \<and> seek_accepts f30_py2 10 \<and> (5::int) < 10
   \<and> read_size (Some (5 - 10)) 5 < 0
   \<and> read_accepts f30_py2 (read_size (Some (5 - 10)) 5)
   \<and> chunks (app_iter_range (FileIter f30_py2) (Some 10) (Some 5) 5) = [''klmnopqrstuvwxyz0123'']
   \<and> \<not> closed f30 \<and> seek_accepts f30 10 \<and> (9::int) < 10
   \<and> read_accepts f30 (read_size (Some (9 - 10)) 5)
   \<and> chunks (app_iter_range (FileIter f30) (Some 10) (Some 9) 5) = [''klmnopqrstuvwxyz0123'']
   \<and> (10::int) \<le> 25
   \<and> int (length (concat (chunks (app_iter_range (FileIter f30) (Some 10) (Some 25) 5)))) \<le> 25 - 10"
  using seek_beyond_limit [of f30_py2 10 5 5] seek_beyond_limit [of f30 10 9 5]
    seek_beyond_limit [of f30 10 25 5]
  by (simp add: f30_def f30_py2_def python3_def python2_def seek_accepts_def read_accepts_def
      read_size_def default_block_size_def)

text \<open>
  Claim C9 as the specification states it (the negative size reads the rest of the file)
  fails under Python 3 for \<open>seek = 10\<close>, \<open>limit = 5\<close>, \<open>block_size = 5\<close>: the read of size
  \<open>-5\<close> raises ValueError and the iterator yields nothing.
\<close>

theorem negative_read_refused_counterexample:
  "\<not> closed f30 \<and> seek_accepts f30 10 \<and> (5::int) < 10
   \<and> read_size (Some (5 - 10)) 5 = - 5
   \<and> chunks (app_iter_range (FileIter f30) (Some 10) (Some 5) 5) = []
   \<and> raised (app_iter_range (FileIter f30) (Some 10) (Some 5) 5) = Some ValueError"
  by (simp add: iter_eval)

section \<open>Properties of \<open>FileApp\<close> and \<open>DirectoryApp\<close>\<close>

lemma filename_FileApp_init: "filename (FileApp_init e name kwds) = name"
  by (simp add: FileApp_init_def split: prod.splits)

lemma filename_plain_app: "filename (plain_app name) = name"
  by (simp add: plain_app_def filename_FileApp_init)

lemma isfile_not_isdir: "isfile e p \<Longrightarrow> \<not> isdir e p"
  by (auto simp: isfile_def isdir_def split: sum.splits)

lemma DirectoryApp_init_Inr:
  assumes "DirectoryApp_init e p kwds = Inr self"
  shows "path self = (if suffix ''/'' (abspath e p) then abspath e p else abspath e p @ ''/'')"
    and "isdir e (path self)" and "suffix ''/'' (path self)"
  using assms by (auto simp: DirectoryApp_init_def Let_def split: if_splits)

lemma respond_outside_root:
  assumes "\<not> prefix (path self) (candidate e self req)"
  shows "DirectoryApp_call e self req =
           (Resp (if isfile e (candidate e self req) then HTTPForbidden None
                  else HTTPNotFound (candidate e self req)),
            [Stat (candidate e self req)])"
    and "DirectoryApp_respond e self req =
           (if isfile e (candidate e self req) then HTTPForbidden None
            else HTTPNotFound (candidate e self req),
            [Stat (candidate e self req)])"
  using assms by (simp_all add: DirectoryApp_respond_def DirectoryApp_call_def wsgify_def Let_def)

lemmas path_eval =
  candidate_def abspath_def normpath_def join_def lstrip_sep_def isabs_def
  initial_slashes_def normpath_comp_def Let_def

text \<open>
  Claim C1, as the code has it. \<open>DirectoryApp.__call__\<close> tests first whether the candidate
  is a regular file and only then whether it lies under the root. A request whose candidate
  lies outside the root is answered Forbidden (403) when a regular file exists at the
  candidate, and Not Found (404) with the candidate as comment when none does; the only file
  system call is the stat of the candidate.
\<close>

theorem outside_root_forbidden_or_not_found:
  assumes "\<not> prefix (path self) (candidate e self req)"
  shows "DirectoryApp_call e self req =
           (Resp (if isfile e (candidate e self req) then HTTPForbidden None
                  else HTTPNotFound (candidate e self req)),
            [Stat (candidate e self req)])
       \<and> DirectoryApp_respond e self req =
           (if isfile e (candidate e self req) then HTTPForbidden None
            else HTTPNotFound (candidate e self req),
            [Stat (candidate e self req)])
       \<and> status (fst (DirectoryApp_respond e self req))
           = (if isfile e (candidate e self req) then 403 else 404)"
  using respond_outside_root [OF assms] by simp

theorem outside_root_forbidden_or_not_found_witness:
  "candidate example_env www_app (get ''../secret.txt'') = ''/srv/secret.txt''
   \<and> \<not> prefix (path www_app) (candidate example_env www_app (get ''../secret.txt''))
   \<and> isfile example_env ''/srv/secret.txt''
   \<and> DirectoryApp_respond example_env www_app (get ''../secret.txt'')
       = (HTTPForbidden None, [Stat ''/srv/secret.txt''])
   \<and> status (fst (DirectoryApp_respond example_env www_app (get ''../secret.txt''))) = 403"
proof -
  have c: "candidate example_env www_app (get ''../secret.txt'') = ''/srv/secret.txt''"
    by (simp add: candidate_def abspath_def normpath_def join_def lstrip_sep_def isabs_def
        initial_slashes_def normpath_comp_def www_app_def get_def example_env_def Let_def)
  have p: "\<not> prefix (path www_app) (candidate example_env www_app (get ''../secret.txt''))"
    unfolding c by (simp add: www_app_def)
  have f: "isfile example_env ''/srv/secret.txt''"
    by (simp add: isfile_def example_env_def example_stat_def)
  show ?thesis
    using outside_root_forbidden_or_not_found [OF p] c p f by simp
qed

text \<open>
  Claim C1 as the specification states it (403 whether or not a file exists) fails for the
  request \<open>../secret.txt\<close> when \<open>/srv/secret.txt\<close> does not exist: the answer is 404.
\<close>

theorem outside_root_missing_file_counterexample:
  "candidate env_without_secret www_app (get ''../secret.txt'') = ''/srv/secret.txt''
   \<and> \<not> prefix (path www_app) (candidate env_without_secret www_app (get ''../secret.txt''))
   \<and> fst (DirectoryApp_respond env_without_secret www_app (get ''../secret.txt''))
       = HTTPNotFound ''/srv/secret.txt''
   \<and> status (fst (DirectoryApp_respond env_without_secret www_app (get ''../secret.txt''))) \<noteq> 403"
proof -
  have c: "candidate env_without_secret www_app (get ''../secret.txt'') = ''/srv/secret.txt''"
    by (simp add: candidate_def abspath_def normpath_def join_def lstrip_sep_def isabs_def
        initial_slashes_def normpath_comp_def www_app_def get_def Let_def)
  have f: "\<not> isfile env_without_secret ''/srv/secret.txt''"
    by (simp add: isfile_def env_without_secret_def)
  show ?thesis
    using c f by (simp add: DirectoryApp_respond_def DirectoryApp_call_def wsgify_def Let_def www_app_def)
qed

text \<open>
  Claim C4. When a \<open>DirectoryApp\<close> that its constructor has built returns a \<open>FileApp\<close> for a
  request, the file name of that \<open>FileApp\<close> is the candidate path, the root path ends with
  the separator and is a proper prefix of the candidate, and the candidate is neither the
  root path nor the root path without the separator.
\<close>

theorem delegated_path_below_root:
  assumes "DirectoryApp_init e p kwds = Inr self"
    and "DirectoryApp_call e self req = (App a, calls)"
  shows "suffix ''/'' (path self)
       \<and> filename a = candidate e self req
       \<and> isfile e (filename a)
       \<and> strict_prefix (path self) (filename a)
       \<and> filename a \<noteq> path self
       \<and> filename a \<noteq> abspath e p"
proof -
  let ?c = "candidate e self req"
  from assms(2) have isf: "isfile e ?c" and pre: "prefix (path self) ?c"
    and a: "a = make_fileapp e self ?c"
    by (auto simp: DirectoryApp_call_def Let_def split: if_splits)
  have name: "filename a = ?c"
    by (simp add: a make_fileapp_def filename_FileApp_init)
  have dir: "isdir e (path self)" and sl: "suffix ''/'' (path self)"
    using DirectoryApp_init_Inr [OF assms(1)] by simp_all
  have ne: "?c \<noteq> path self"
    using isf dir isfile_not_isdir by auto
  then have sp: "strict_prefix (path self) ?c"
    using pre by (simp add: strict_prefix_def)
  then have "length (path self) < length ?c"
    by (rule prefix_length_less)
  moreover have "length (abspath e p) \<le> length (path self)"
    using DirectoryApp_init_Inr(1) [OF assms(1)] by (simp split: if_splits)
  ultimately have "?c \<noteq> abspath e p" by auto
  then show ?thesis using name isf sp ne sl by simp
qed

theorem delegated_path_below_root_witness:
  "DirectoryApp_init example_env ''/srv/www'' Map.empty = Inr www_app
   \<and> DirectoryApp_call example_env www_app (get ''/index.html'')
       = (App (make_fileapp example_env www_app ''/srv/www/index.html''),
          [Stat ''/srv/www/index.html''])
   \<and> filename (make_fileapp example_env www_app ''/srv/www/index.html'') = ''/srv/www/index.html''
   \<and> strict_prefix (path www_app)
       (filename (make_fileapp example_env www_app ''/srv/www/index.html''))"
proof -
  have i: "DirectoryApp_init example_env ''/srv/www'' Map.empty = Inr www_app"
    by (simp add: DirectoryApp_init_def path_eval suffix_to_prefix isdir_def example_env_def
        example_stat_def www_app_def)
  have c: "candidate example_env www_app (get ''/index.html'') = ''/srv/www/index.html''"
    by (simp add: path_eval www_app_def get_def)
  have f: "isfile example_env ''/srv/www/index.html''"
    by (simp add: isfile_def example_env_def example_stat_def)
  have p: "prefix (path www_app) ''/srv/www/index.html''"
    by (simp add: www_app_def)
  have d: "DirectoryApp_call example_env www_app (get ''/index.html'')
       = (App (make_fileapp example_env www_app ''/srv/www/index.html''),
          [Stat ''/srv/www/index.html''])"
    by (simp add: DirectoryApp_call_def Let_def c f p)
  note t = delegated_path_below_root [OF i d]
  have n: "filename (make_fileapp example_env www_app ''/srv/www/index.html'')
             = ''/srv/www/index.html''"
    using t c by simp
  have sp: "strict_prefix (path www_app)
              (filename (make_fileapp example_env www_app ''/srv/www/index.html''))"
    using t by (elim conjE)
  show ?thesis
    using i d n sp by (intro conjI)
qed

text \<open>
  Claim C5. For a request whose method is neither GET nor HEAD, \<open>FileApp.__call__\<close> returns
  Method Not Allowed (405) and makes no file system call, whatever the file name is; so a
  file that does not exist gives 405 as well, not 404.
\<close>

theorem other_methods_not_allowed:
  assumes "method req \<noteq> ''GET''" and "method req \<noteq> ''HEAD''"
  shows "FileApp_call e self req
           = (HTTPMethodNotAllowed (''You cannot '' @ method req @ '' a file''), [])
       \<and> status (fst (FileApp_call e self req)) = 405
       \<and> snd (FileApp_call e self req) = []"
  using assms by (simp add: FileApp_call_def)

theorem other_methods_not_allowed_witness:
  "stat_of example_env ''/srv/www/nothing.txt'' = Inl enoent
   \<and> status (fst (FileApp_call example_env (plain_app ''/srv/www/nothing.txt'') (get ''/''))) = 404
   \<and> FileApp_call example_env (plain_app ''/srv/www/nothing.txt'') (post ''/'')
       = (HTTPMethodNotAllowed ''You cannot POST a file'', [])
   \<and> status (fst (FileApp_call example_env (plain_app ''/srv/www/nothing.txt'') (post ''/''))) = 405"
proof -
  have m: "method (post ''/'') \<noteq> ''GET''" "method (post ''/'') \<noteq> ''HEAD''"
    by (simp_all add: post_def)
  have s: "stat_of example_env ''/srv/www/nothing.txt'' = Inl enoent"
    by (simp add: example_env_def example_stat_def)
  have g: "status (fst (FileApp_call example_env (plain_app ''/srv/www/nothing.txt'') (get ''/''))) = 404"
    by (simp add: FileApp_call_def get_def filename_plain_app s)
  show ?thesis
    using other_methods_not_allowed [OF m, of example_env "plain_app ''/srv/www/nothing.txt''"] s g
    by (simp add: post_def)
qed

text \<open>
  Claim C6. For a GET or HEAD request every outcome of the two file system calls is a
  response: a failed stat gives Not Found (404) whose comment holds the file name (as \<open>%r\<close>
  renders it) and the text of the error, with no further call; a failed open gives
  Forbidden (403) whose message holds the text of the error; otherwise the value returned
  is the response that streams the opened file.
\<close>

theorem filesystem_errors_become_responses:
  assumes "method req = ''GET'' \<or> method req = ''HEAD''"
  shows "(\<forall>err. stat_of e (filename self) = Inl err \<longrightarrow>
            FileApp_call e self req
              = (HTTPNotFound (''Can'' @ [CHR 0x27] @ ''t open '' @ repr_of e (filename self)
                               @ '': '' @ str_of err),
                 [Stat (filename self)]))
       \<and> (\<forall>st err. stat_of e (filename self) = Inr st \<and> open_rb e (filename self) = Inl err \<longrightarrow>
            FileApp_call e self req
              = (HTTPForbidden
                   (Some (''You are not permitted to view this file ('' @ str_of err @ '')'')),
                 [Stat (filename self), Open (filename self)]))
       \<and> (\<forall>st bs. stat_of e (filename self) = Inr st \<and> open_rb e (filename self) = Inr bs \<longrightarrow>
            FileApp_call e self req
              = (Response \<lparr>app_iter = FileIter \<lparr>content = bs, pos = 0, closed = False,
                                                rt = runtime_of e\<rparr>,
                           content_length = st_size st, last_modified = st_mtime st,
                           response_kw = kw self\<rparr>,
                 [Stat (filename self), Open (filename self)]))
       \<and> (status (fst (FileApp_call e self req)) = 404
            \<or> status (fst (FileApp_call e self req)) = 403
            \<or> (\<exists>r. fst (FileApp_call e self req) = Response r))"
  using assms
  by (auto simp: FileApp_call_def open_file_def split: sum.splits)

theorem filesystem_errors_become_responses_witness:
  "FileApp_call example_env (plain_app ''/srv/www/nothing.txt'') (get ''/'')
     = (HTTPNotFound (''Can'' @ [CHR 0x27] @ ''t open '' @ [CHR 0x27] @ ''/srv/www/nothing.txt''
                      @ [CHR 0x27] @ '': [Errno 2] No such file or directory''),
        [Stat ''/srv/www/nothing.txt''])
   \<and> FileApp_call example_env (plain_app ''/srv/www/private.txt'') (get ''/'')
     = (HTTPForbidden
          (Some ''You are not permitted to view this file ([Errno 13] Permission denied)''),
        [Stat ''/srv/www/private.txt'', Open ''/srv/www/private.txt''])
   \<and> fst (FileApp_call example_env (plain_app ''/srv/www/index.html'') (get ''/''))
     = Response \<lparr>app_iter = FileIter f30, content_length = 30, last_modified = 0,
                 response_kw = kw (plain_app ''/srv/www/index.html'')\<rparr>"
proof -
  have m: "method (get ''/'') = ''GET'' \<or> method (get ''/'') = ''HEAD''"
    by (simp add: get_def)
  have s1: "stat_of example_env (filename (plain_app ''/srv/www/nothing.txt'')) = Inl enoent"
    by (simp add: example_env_def example_stat_def filename_plain_app)
  have s2: "stat_of example_env (filename (plain_app ''/srv/www/private.txt''))
              = Inr \<lparr>st_kind = S_IFREG, st_size = 30, st_mtime = 0\<rparr>
          \<and> open_rb example_env (filename (plain_app ''/srv/www/private.txt'')) = Inl eacces"
    by (simp add: example_env_def example_stat_def example_open_def filename_plain_app)
  have s3: "stat_of example_env (filename (plain_app ''/srv/www/index.html''))
              = Inr \<lparr>st_kind = S_IFREG, st_size = 30, st_mtime = 0\<rparr>
          \<and> open_rb example_env (filename (plain_app ''/srv/www/index.html'')) = Inr (content f30)"
    by (simp add: example_env_def example_stat_def example_open_def filename_plain_app)
  have r: "repr_of example_env ''/srv/www/nothing.txt'' = [CHR 0x27] @ ''/srv/www/nothing.txt'' @ [CHR 0x27]"
    by (simp add: example_env_def)
  have rt: "runtime_of example_env = python3"
    by (simp add: example_env_def)
  note t1 = filesystem_errors_become_responses [OF m, of example_env "plain_app ''/srv/www/nothing.txt''"]
  note t2 = filesystem_errors_become_responses [OF m, of example_env "plain_app ''/srv/www/private.txt''"]
  note t3 = filesystem_errors_become_responses [OF m, of example_env "plain_app ''/srv/www/index.html''"]
  have a: "FileApp_call example_env (plain_app ''/srv/www/nothing.txt'') (get ''/'')
     = (HTTPNotFound (''Can'' @ [CHR 0x27] @ ''t open '' @ [CHR 0x27] @ ''/srv/www/nothing.txt''
                      @ [CHR 0x27] @ '': [Errno 2] No such file or directory''),
        [Stat ''/srv/www/nothing.txt''])"
    using t1 s1 r by (simp add: filename_plain_app enoent_def)
  have b: "FileApp_call example_env (plain_app ''/srv/www/private.txt'') (get ''/'')
     = (HTTPForbidden
          (Some ''You are not permitted to view this file ([Errno 13] Permission denied)''),
        [Stat ''/srv/www/private.txt'', Open ''/srv/www/private.txt''])"
    using t2 s2 by (simp add: filename_plain_app eacces_def)
  have c: "fst (FileApp_call example_env (plain_app ''/srv/www/index.html'') (get ''/''))
     = Response \<lparr>app_iter = FileIter f30, content_length = 30, last_modified = 0,
                 response_kw = kw (plain_app ''/srv/www/index.html'')\<rparr>"
    using t3 s3 rt by (simp add: filename_plain_app f30_def)
  show ?thesis using a b c by simp
qed

text \<open>
  Claim C10, as the code has it. The constructor appends the separator to a root path that
  does not end with one. A candidate that continues the root path \<open>d\<close> by something that
  does not start with the separator (root \<open>/data\<close>, candidate \<open>/database/x\<close>) therefore never
  has the root \<open>d/\<close> as a prefix and is never handed to a \<open>FileApp\<close>: the answer is
  Forbidden when a regular file exists at the candidate, and Not Found otherwise.
\<close>

theorem sibling_sharing_name_prefix_rejected:
  assumes "DirectoryApp_init e p kwds = Inr self"
    and "\<not> suffix ''/'' (abspath e p)"
    and "candidate e self req = abspath e p @ t"
    and "\<not> prefix ''/'' t"
  shows "path self = abspath e p @ ''/''
       \<and> \<not> prefix (path self) (candidate e self req)
       \<and> DirectoryApp_call e self req =
           (Resp (if isfile e (candidate e self req) then HTTPForbidden None
                  else HTTPNotFound (candidate e self req)),
            [Stat (candidate e self req)])
       \<and> DirectoryApp_respond e self req =
           (if isfile e (candidate e self req) then HTTPForbidden None
            else HTTPNotFound (candidate e self req),
            [Stat (candidate e self req)])"
proof -
  have root: "path self = abspath e p @ ''/''"
    using DirectoryApp_init_Inr(1) [OF assms(1)] assms(2) by simp
  have out: "\<not> prefix (path self) (candidate e self req)"
    using assms(4) by (simp add: root assms(3))
  show ?thesis
    using root out respond_outside_root [OF out] by simp
qed

theorem sibling_sharing_name_prefix_rejected_witness:
  "DirectoryApp_init example_env ''/data'' Map.empty = Inr data_app
   \<and> abspath example_env ''/data'' = ''/data''
   \<and> candidate example_env data_app (get ''../database/x'') = ''/data'' @ ''base/x''
   \<and> path data_app = ''/data/''
   \<and> isfile example_env ''/database/x''
   \<and> DirectoryApp_respond example_env data_app (get ''../database/x'')
       = (HTTPForbidden None, [Stat ''/database/x''])"
proof -
  have ab: "abspath example_env ''/data'' = ''/data''"
    by (simp add: path_eval)
  have i: "DirectoryApp_init example_env ''/data'' Map.empty = Inr data_app"
    unfolding DirectoryApp_init_def ab
    by (simp add: suffix_to_prefix isdir_def example_env_def example_stat_def data_app_def)
  have ns: "\<not> suffix ''/'' (abspath example_env ''/data'')"
    by (simp add: ab suffix_to_prefix)
  have c: "candidate example_env data_app (get ''../database/x'')
             = abspath example_env ''/data'' @ ''base/x''"
    unfolding ab by (simp add: path_eval data_app_def get_def)
  have t: "\<not> prefix ''/'' ''base/x''"
    by simp
  have f: "isfile example_env ''/database/x''"
    by (simp add: isfile_def example_env_def example_stat_def)
  show ?thesis
    using sibling_sharing_name_prefix_rejected [OF i ns c t] i ab c f by simp
qed

text \<open>
  Claim C10 as the specification states it (always Forbidden) fails for root \<open>/data\<close> and
  the request \<open>../database/y\<close>, where no file exists: the answer is Not Found.
\<close>

theorem sibling_missing_file_counterexample:
  "path data_app = ''/data/''
   \<and> candidate example_env data_app (get ''../database/y'') = ''/database/y''
   \<and> \<not> prefix (path data_app) (candidate example_env data_app (get ''../database/y''))
   \<and> fst (DirectoryApp_respond example_env data_app (get ''../database/y''))
       = HTTPNotFound ''/database/y''
   \<and> fst (DirectoryApp_respond example_env data_app (get ''../database/y''))
       \<noteq> HTTPForbidden None"
proof -
  have c: "candidate example_env data_app (get ''../database/y'') = ''/database/y''"
    by (simp add: path_eval data_app_def get_def)
  have f: "\<not> isfile example_env ''/database/y''"
    by (simp add: isfile_def example_env_def example_stat_def)
  have r: "path data_app = ''/data/''"
    by (simp add: data_app_def)
  show ?thesis
    using c f r by (simp add: DirectoryApp_respond_def DirectoryApp_call_def wsgify_def Let_def)
qed

end
